theory Spec2Isabelle
  imports Complex_Main
begin

section \<open>The train tracker page: data model\<close>

text \<open>
  The development embeds the state logic of \<^verbatim>\<open>src/frontend/pages/train-tracker.tsx\<close>:
  the six \<^verbatim>\<open>useState\<close> cells of the component \<^verbatim>\<open>TrainTracker\<close>, the asynchronous
  handlers \<^verbatim>\<open>fetchAllTrains\<close> and \<^verbatim>\<open>searchTrains\<close>, the click handler
  \<^verbatim>\<open>selectTrain\<close>, the mount effect that installs the polling timer, the fleet list of
  the render, the pure helper \<^verbatim>\<open>getStatusColor\<close>, and the order in which the event loop
  runs the pieces of the handlers.

  JavaScript numbers that are only stored and shown (coordinates, speed, distances) are
  reals; \<^verbatim>\<open>trainId\<close>, the only number the code compares, is an integer. A \<^verbatim>\<open>Date\<close> is
  its number of milliseconds since the epoch.
\<close>

record RouteStop =
  station :: string
  lat :: real
  lon :: real
  time :: string
  distance :: real

record TrainPosition =
  trainId :: int
  trainName :: string
  trainNumber :: string
  currentLat :: real
  currentLon :: real
  speed :: real
  heading :: real
  lastStation :: string
  nextStation :: string
  distanceToNext :: real
  totalDistance :: real
  distanceCovered :: real
  delay :: real
  status :: string
  estimatedArrival :: string
  progress :: real
  route :: "RouteStop list"

type_synonym Date = int

text \<open>
  The value found under a property of a parsed JSON body. TypeScript's annotations are
  erased at run time, so \<^verbatim>\<open>data.trains\<close> may be any JSON value, or \<^verbatim>\<open>undefined\<close> when the
  body has no such property. An array is taken to hold well-typed train records; \<open>JObj\<close>
  stands for an object that is not an array.
\<close>

datatype js_value =
    JUndefined
  | JNull
  | JBool bool
  | JNum real
  | JStr string
  | JObj
  | JArr "TrainPosition list"

text \<open>The errors a handler can catch: a rejected request, a body that is not JSON, and
  a property access or call on a value that does not support it.\<close>

datatype js_error = NetworkError | SyntaxError | TypeError

text \<open>
  What \<^verbatim>\<open>apiGet('/api/live-location/trains')\<close> followed by \<^verbatim>\<open>response.json()\<close> can
  give: the request rejects; the response has \<^verbatim>\<open>ok = false\<close>; the body does not parse;
  the body is the JSON value \<^verbatim>\<open>null\<close>; or the body is any other JSON value, and then
  \<open>FetchBody v\<close> carries \<open>v\<close>, the value of \<^verbatim>\<open>data.trains\<close>.
\<close>

datatype fleet_response =
    FetchRejected
  | FetchNotOk
  | FetchBadJson
  | FetchNullBody
  | FetchBody js_value

text \<open>The component's state: one field for each \<^verbatim>\<open>useState\<close> cell (lines 32 to 37).
  The cell \<^verbatim>\<open>allTrains\<close> holds whatever value was passed to \<^verbatim>\<open>setAllTrains\<close>.\<close>

record FleetState =
  searchQuery :: string
  selectedTrain :: "TrainPosition option"
  allTrains :: js_value
  loading :: bool
  error :: "string option"
  lastUpdated :: "Date option"

definition initialState :: FleetState where
  "initialState =
     \<lparr>searchQuery = [], selectedTrain = None, allTrains = JArr [],
      loading = False, error = None, lastUpdated = None\<rparr>"

section \<open>Polling: \<^verbatim>\<open>fetchAllTrains\<close> and the mount effect\<close>

text \<open>JavaScript truthiness, as the operator \<^verbatim>\<open>||\<close> tests it.\<close>

fun truthy :: "js_value \<Rightarrow> bool" where
  "truthy JUndefined = False"
| "truthy JNull = False"
| "truthy (JBool b) = b"
| "truthy (JNum n) = (n \<noteq> 0)"
| "truthy (JStr s) = (s \<noteq> [])"
| "truthy JObj = True"
| "truthy (JArr ts) = True"

text \<open>\<^verbatim>\<open>data.trains || []\<close> (line 53).\<close>

definition orEmpty :: "js_value \<Rightarrow> js_value" where
  "orEmpty v = (if truthy v then v else JArr [])"

text \<open>
  \<^verbatim>\<open>data.trains.find((t) => t.trainId === selectedTrain.trainId)\<close> (line 58). Only an
  array has a \<^verbatim>\<open>find\<close> method: on \<^verbatim>\<open>undefined\<close> and \<^verbatim>\<open>null\<close> the property access throws,
  on every other value the call of the missing method throws.
\<close>

fun findById :: "TrainPosition \<Rightarrow> js_value \<Rightarrow> js_error + TrainPosition option" where
  "findById sel (JArr ts) = Inr (List.find (\<lambda>t. trainId t = trainId sel) ts)"
| "findById sel v = Inl TypeError"

text \<open>
  \<^verbatim>\<open>fetchAllTrains\<close> (lines 48 to 67). The function is a closure created by one render
  of the component: the \<^verbatim>\<open>selectedTrain\<close> it reads on line 57 is the value that render
  saw, written here as the first argument \<open>captured\<close>. The setters act on the current
  state \<open>st\<close>; \<open>now\<close> is the clock reading of \<^verbatim>\<open>new Date()\<close>. The result is the state
  after the call and the error passed to \<^verbatim>\<open>console.error\<close> by the \<^verbatim>\<open>catch\<close> block, if
  any. A throw on line 58 comes after the setters of lines 53 and 54 have been called,
  so their updates stay.
\<close>

definition fetchAllTrains ::
  "TrainPosition option \<Rightarrow> fleet_response \<Rightarrow> Date \<Rightarrow> FleetState \<Rightarrow> FleetState \<times> js_error option"
where
  "fetchAllTrains captured resp now st =
     (case resp of
        FetchRejected \<Rightarrow> (st, Some NetworkError)
      | FetchNotOk \<Rightarrow> (st, None)
      | FetchBadJson \<Rightarrow> (st, Some SyntaxError)
      | FetchNullBody \<Rightarrow> (st, Some TypeError)
      | FetchBody trains \<Rightarrow>
          (let st1 = st\<lparr>allTrains := orEmpty trains, lastUpdated := Some now\<rparr> in
           case captured of
             None \<Rightarrow> (st1, None)
           | Some sel \<Rightarrow>
               (case findById sel trains of
                  Inl e \<Rightarrow> (st1, Some e)
                | Inr None \<Rightarrow> (st1, None)
                | Inr (Some updated) \<Rightarrow> (st1\<lparr>selectedTrain := Some updated\<rparr>, None))))"

text \<open>
  The mount effect (lines 40 to 46) has the dependency list \<^verbatim>\<open>[]\<close>: it runs once, after
  the first render, and both its direct call and \<^verbatim>\<open>setInterval\<close> receive the
  \<^verbatim>\<open>fetchAllTrains\<close> of that first render, in which \<^verbatim>\<open>selectedTrain\<close> is the initial
  value of its cell. No other place of the file calls \<^verbatim>\<open>fetchAllTrains\<close>, so every poll
  of the running page is \<open>pollFleet\<close>.
\<close>

definition pollFleet :: "fleet_response \<Rightarrow> Date \<Rightarrow> FleetState \<Rightarrow> FleetState \<times> js_error option" where
  "pollFleet resp now st = fetchAllTrains (selectedTrain initialState) resp now st"

text \<open>\<^verbatim>\<open>selectTrain\<close> (lines 95 to 98), the click handler of a fleet entry.\<close>

definition selectTrain :: "TrainPosition \<Rightarrow> FleetState \<Rightarrow> FleetState" where
  "selectTrain train st = st\<lparr>selectedTrain := Some train, error := None\<rparr>"

text \<open>The ids held in the cell \<^verbatim>\<open>allTrains\<close>, in order.\<close>

fun entityIds :: "js_value \<Rightarrow> int list" where
  "entityIds (JArr ts) = map trainId ts"
| "entityIds v = []"

text \<open>A sample record, for concrete runs: a train with the given id and speed.\<close>

definition sampleTrain :: "int \<Rightarrow> real \<Rightarrow> TrainPosition" where
  "sampleTrain i v =
     \<lparr>trainId = i, trainName = ''Express'', trainNumber = ''12951'',
      currentLat = 19, currentLon = 73, speed = v, heading = 90,
      lastStation = ''Surat'', nextStation = ''Vadodara'',
      distanceToNext = 30, totalDistance = 400, distanceCovered = 100,
      delay = 0, status = ''On Time'', estimatedArrival = ''10:30'',
      progress = 25, route = []\<rparr>"

section \<open>Search: \<^verbatim>\<open>searchTrains\<close>\<close>

text \<open>
  Strings are lists of 8-bit code units. \<^verbatim>\<open>String.prototype.trim\<close> removes white space
  and line terminators from both ends; among the code units 0 to 255 these are the tab,
  line feed, vertical tab, form feed, carriage return (9 to 13), the space (32) and the
  no-break space (160).
\<close>

definition isWhiteSpace :: "char \<Rightarrow> bool" where
  "isWhiteSpace c =
     (let n = (of_char c :: nat) in (9 \<le> n \<and> n \<le> 13) \<or> n = 32 \<or> n = 160)"

definition trim :: "string \<Rightarrow> string" where
  "trim s = rev (dropWhile isWhiteSpace (rev (dropWhile isWhiteSpace s)))"

text \<open>
  What \<^verbatim>\<open>apiGet('/api/live-location/search?query=...')\<close> followed by
  \<^verbatim>\<open>response.json()\<close> can give: the request rejects; the response has \<^verbatim>\<open>ok = false\<close>;
  the body does not parse; the body is \<^verbatim>\<open>null\<close> or has no \<^verbatim>\<open>results\<close>, so that
  \<^verbatim>\<open>data.results.length\<close> throws; or \<^verbatim>\<open>data.results\<close> is an array of train records.
\<close>

datatype search_response =
    SearchRejected
  | SearchNotOk
  | SearchBadJson
  | SearchBodyWithoutResults
  | SearchResults "TrainPosition list"

text \<open>
  \<^verbatim>\<open>searchTrains\<close> (lines 69 to 93). Like \<^verbatim>\<open>fetchAllTrains\<close> it is a closure of one
  render; the \<^verbatim>\<open>searchQuery\<close> it reads is the argument \<open>query\<close>. The result is the state
  once the handler has run to its end, \<^verbatim>\<open>finally\<close> block included. The \<^verbatim>\<open>catch\<close> block
  sets the error text and logs nothing.
\<close>

definition searchTrains :: "string \<Rightarrow> search_response \<Rightarrow> FleetState \<Rightarrow> FleetState" where
  "searchTrains query resp st =
     (if trim query = [] then st
      else
        let st1 = st\<lparr>loading := True, error := None\<rparr>;
            st2 =
              (case resp of
                 SearchRejected \<Rightarrow>
                   st1\<lparr>error := Some ''Search error. Please check your connection.''\<rparr>
               | SearchNotOk \<Rightarrow>
                   st1\<lparr>error := Some ''Search failed. Please try again.''\<rparr>
               | SearchBadJson \<Rightarrow>
                   st1\<lparr>error := Some ''Search error. Please check your connection.''\<rparr>
               | SearchBodyWithoutResults \<Rightarrow>
                   st1\<lparr>error := Some ''Search error. Please check your connection.''\<rparr>
               | SearchResults results \<Rightarrow>
                   (case results of
                      first # others \<Rightarrow> st1\<lparr>selectedTrain := Some first\<rparr>
                    | [] \<Rightarrow> st1\<lparr>error := Some ''No trains found matching your search''\<rparr>))
        in st2\<lparr>loading := False\<rparr>)"

text \<open>
  The same handler cut at its first \<^verbatim>\<open>await\<close> (line 76). \<open>searchTrains_call\<close> is what
  runs when the handler is called (lines 70 to 73, up to the sending of the request);
  \<open>searchTrains_answer\<close> is what runs when the request has settled (lines 78 to 91). It
  is run only for a call that has sent a request.
\<close>

definition searchTrains_call :: "string \<Rightarrow> FleetState \<Rightarrow> FleetState" where
  "searchTrains_call query st =
     (if trim query = [] then st else st\<lparr>loading := True, error := None\<rparr>)"

definition searchTrains_answer :: "search_response \<Rightarrow> FleetState \<Rightarrow> FleetState" where
  "searchTrains_answer resp st =
     (let st2 =
        (case resp of
           SearchRejected \<Rightarrow>
             st\<lparr>error := Some ''Search error. Please check your connection.''\<rparr>
         | SearchNotOk \<Rightarrow>
             st\<lparr>error := Some ''Search failed. Please try again.''\<rparr>
         | SearchBadJson \<Rightarrow>
             st\<lparr>error := Some ''Search error. Please check your connection.''\<rparr>
         | SearchBodyWithoutResults \<Rightarrow>
             st\<lparr>error := Some ''Search error. Please check your connection.''\<rparr>
         | SearchResults results \<Rightarrow>
             (case results of
                first # others \<Rightarrow> st\<lparr>selectedTrain := Some first\<rparr>
              | [] \<Rightarrow> st\<lparr>error := Some ''No trains found matching your search''\<rparr>))
      in st2\<lparr>loading := False\<rparr>)"

section \<open>The fleet list of the render\<close>

text \<open>
  The render maps the cell \<^verbatim>\<open>allTrains\<close> to the cards of the fleet list (lines 177 to
  179), one card for each train, keyed by its \<^verbatim>\<open>trainId\<close>. Only an array has the method
  \<^verbatim>\<open>map\<close>; on any other value the call throws and the render fails.
\<close>

fun renderTrainList :: "js_value \<Rightarrow> js_error + int list" where
  "renderTrainList (JArr ts) = Inr (map trainId ts)"
| "renderTrainList v = Inl TypeError"

section \<open>The page on the event loop\<close>

text \<open>
  JavaScript runs a handler without interruption from one \<^verbatim>\<open>await\<close> to the next, so the
  page moves in steps, one for each such piece of a handler:
  \<^item> \<open>Tick\<close>: the timer of line 44 fires and calls \<^verbatim>\<open>fetchAllTrains\<close>, which sends its
    request on line 50 at once; no test of an earlier request comes before it;
  \<^item> \<open>PollAnswer\<close>: a fleet request has settled, and lines 51 to 66 run on its outcome;
  \<^item> \<open>SearchCall\<close>: \<^verbatim>\<open>searchTrains\<close> is called and runs up to its request;
  \<^item> \<open>SearchAnswer\<close>: a search request has settled, and lines 78 to 91 run;
  \<^item> \<open>Click\<close>: a card of the fleet list is clicked (line 180).

  Beside the state cells the page counts the requests that were sent and have not yet
  settled. An answer with no request in flight cannot happen and is a step that changes
  nothing. The removal of the timer at unmount is not part of the model.
\<close>

record Page =
  fleet :: FleetState
  pollsInFlight :: nat
  searchesInFlight :: nat

datatype event =
    Tick
  | PollAnswer fleet_response Date
  | SearchCall string
  | SearchAnswer search_response
  | Click TrainPosition

fun step :: "event \<Rightarrow> Page \<Rightarrow> Page" where
  "step Tick p = p\<lparr>pollsInFlight := pollsInFlight p + 1\<rparr>"
| "step (PollAnswer resp now) p =
     (if pollsInFlight p = 0 then p
      else p\<lparr>fleet := fst (pollFleet resp now (fleet p)),
             pollsInFlight := pollsInFlight p - 1\<rparr>)"
| "step (SearchCall query) p =
     (if trim query = [] then p
      else p\<lparr>fleet := searchTrains_call query (fleet p),
             searchesInFlight := searchesInFlight p + 1\<rparr>)"
| "step (SearchAnswer resp) p =
     (if searchesInFlight p = 0 then p
      else p\<lparr>fleet := searchTrains_answer resp (fleet p),
             searchesInFlight := searchesInFlight p - 1\<rparr>)"
| "step (Click train) p = p\<lparr>fleet := selectTrain train (fleet p)\<rparr>"

fun run :: "event list \<Rightarrow> Page \<Rightarrow> Page" where
  "run [] p = p"
| "run (e # es) p = run es (step e p)"

text \<open>The page after the mount effect has run: the cells hold their initial values, the
  call of line 41 has sent the first fleet request, and the timer is set.\<close>

definition mounted :: Page where
  "mounted = \<lparr>fleet = initialState, pollsInFlight = 1, searchesInFlight = 0\<rparr>"

section \<open>Presentation: \<^verbatim>\<open>getStatusColor\<close>\<close>

text \<open>
  \<^verbatim>\<open>String.prototype.toLowerCase\<close> on 8-bit characters: the letters A to Z move to a to z.
  A character outside ASCII is left as it is; JavaScript may change it, but never into a
  letter of one of the status words below, so the classification is the same.
\<close>

definition toLowerChar :: "char \<Rightarrow> char" where
  "toLowerChar c =
     (let n = (of_char c :: nat) in if 65 \<le> n \<and> n \<le> 90 then char_of (n + 32) else c)"

definition toLowerCase :: "string \<Rightarrow> string" where
  "toLowerCase s = map toLowerChar s"

text \<open>\<^verbatim>\<open>getStatusColor\<close> (lines 100 to 111): a \<^verbatim>\<open>switch\<close> on the lower-cased status.\<close>

definition getStatusColor :: "string \<Rightarrow> string" where
  "getStatusColor str =
     (let s = toLowerCase str in
      if s = ''proceed'' \<or> s = ''on time'' then ''text-green-600 bg-green-50''
      else if s = ''warning'' \<or> s = ''delayed'' then ''text-amber-600 bg-amber-50''
      else if s = ''hold'' \<or> s = ''stopped'' then ''text-red-600 bg-red-50''
      else if s = ''early'' then ''text-blue-600 bg-blue-50''
      else ''text-gray-600 bg-gray-50'')"

text \<open>
  The five classes of the specification and the pair of style names that renders each:
  green for success, amber for caution, red for danger, blue for info, gray for neutral.
\<close>

datatype classification = Success | Caution | Danger | Info | Neutral

fun styleOf :: "classification \<Rightarrow> string" where
  "styleOf Success = ''text-green-600 bg-green-50''"
| "styleOf Caution = ''text-amber-600 bg-amber-50''"
| "styleOf Danger = ''text-red-600 bg-red-50''"
| "styleOf Info = ''text-blue-600 bg-blue-50''"
| "styleOf Neutral = ''text-gray-600 bg-gray-50''"

text \<open>
  The closed mapping in the words of the specification, section 4.5: proceed and on-time
  give success, warning and delayed caution, hold and stopped danger, early info, and
  anything else neutral.
\<close>

definition specClassification :: "string \<Rightarrow> classification" where
  "specClassification s =
     (if s = ''proceed'' \<or> s = ''on-time'' then Success
      else if s = ''warning'' \<or> s = ''delayed'' then Caution
      else if s = ''hold'' \<or> s = ''stopped'' then Danger
      else if s = ''early'' then Info
      else Neutral)"

text \<open>The table the \<^verbatim>\<open>switch\<close> implements: its seven \<^verbatim>\<open>case\<close> labels with their classes.\<close>

definition statusTable :: "(string \<times> classification) list" where
  "statusTable =
     [(''proceed'', Success), (''on time'', Success),
      (''warning'', Caution), (''delayed'', Caution),
      (''hold'', Danger), (''stopped'', Danger),
      (''early'', Info)]"

definition tableClassification :: "string \<Rightarrow> classification" where
  "tableClassification s =
     (case map_of statusTable (toLowerCase s) of Some c \<Rightarrow> c | None \<Rightarrow> Neutral)"

section \<open>Basic facts about the handlers\<close>

lemma pollFleet_body:
  "pollFleet (FetchBody v) now st = (st\<lparr>allTrains := orEmpty v, lastUpdated := Some now\<rparr>, None)"
  by (simp add: pollFleet_def fetchAllTrains_def initialState_def)

lemma pollFleet_failed:
  "pollFleet FetchRejected now st = (st, Some NetworkError)"
  "pollFleet FetchNotOk now st = (st, None)"
  "pollFleet FetchBadJson now st = (st, Some SyntaxError)"
  "pollFleet FetchNullBody now st = (st, Some TypeError)"
  by (simp_all add: pollFleet_def fetchAllTrains_def)

text \<open>No poll of the running page writes the selection: the branch of lines 57 to 62 is
  guarded by the \<^verbatim>\<open>selectedTrain\<close> of the first render, which is \<^verbatim>\<open>null\<close>.\<close>

lemma pollFleet_keeps_selection:
  "selectedTrain (fst (pollFleet resp now st)) = selectedTrain st"
  by (cases resp) (simp_all add: pollFleet_failed pollFleet_body)

text \<open>The same function, had it been the closure of the current render, does re-bind
  the selection to the record of the new list with the selected id.\<close>

lemma fetchAllTrains_current_closure_rebinds:
  assumes "selectedTrain st = Some sel"
    and "List.find (\<lambda>t. trainId t = trainId sel) ts = Some updated"
  shows "selectedTrain (fst (fetchAllTrains (selectedTrain st) (FetchBody (JArr ts)) now st))
           = Some updated"
  using assms by (simp add: fetchAllTrains_def)

text \<open>Line 58 has no guard like the one of line 53: in a closure that holds a
  selection, a body without \<^verbatim>\<open>trains\<close> empties the list and then throws into the
  \<^verbatim>\<open>catch\<close> block.\<close>

lemma fetchAllTrains_selected_closure_absent_trains:
  "fetchAllTrains (Some sel) (FetchBody JUndefined) now st
     = (st\<lparr>allTrains := JArr [], lastUpdated := Some now\<rparr>, Some TypeError)"
  by (simp add: fetchAllTrains_def orEmpty_def)

lemma searchTrains_blank:
  assumes "trim query = []"
  shows "searchTrains query resp st = st"
  using assms by (simp add: searchTrains_def)

lemma searchTrains_results:
  assumes "trim query \<noteq> []"
  shows "searchTrains query (SearchResults (first # others)) st
           = st\<lparr>selectedTrain := Some first, loading := False, error := None\<rparr>"
  using assms by (simp add: searchTrains_def)

lemma trim_sample: "trim ''rajdhani'' \<noteq> []"
  by (simp add: trim_def isWhiteSpace_def)

lemma toLowerChar_idem: "toLowerChar (toLowerChar c) = toLowerChar c"
  by (simp add: toLowerChar_def Let_def)

lemma toLowerCase_idem: "toLowerCase (toLowerCase s) = toLowerCase s"
  by (simp add: toLowerCase_def toLowerChar_idem)

lemma getStatusColor_ignores_case: "getStatusColor (toLowerCase s) = getStatusColor s"
  by (simp add: getStatusColor_def toLowerCase_idem)

lemma trim_no_break_space: "trim [char_of (160 :: nat)] = []"
  by (simp add: trim_def isWhiteSpace_def)

text \<open>A body whose \<^verbatim>\<open>trains\<close> field is absent or falsy: the poll of the page empties the
  list and throws nothing; a closure that holds a selection empties the list too, and
  then throws on line 58 into the \<^verbatim>\<open>catch\<close> block.\<close>

lemma falsy_trains_is_empty_fleet:
  assumes "\<not> truthy v"
  shows "pollFleet (FetchBody v) now st
           = (st\<lparr>allTrains := JArr [], lastUpdated := Some now\<rparr>, None)"
  using assms by (simp add: pollFleet_body orEmpty_def)

lemma fetchAllTrains_selected_closure_falsy_trains:
  assumes "\<not> truthy v"
  shows "fetchAllTrains (Some sel) (FetchBody v) now st
           = (st\<lparr>allTrains := JArr [], lastUpdated := Some now\<rparr>, Some TypeError)"
proof -
  have "findById sel v = Inl TypeError"
    using assms by (cases v) simp_all
  then show ?thesis
    using assms by (simp add: fetchAllTrains_def orEmpty_def)
qed

text \<open>The two pieces of \<^verbatim>\<open>searchTrains\<close> run one after the other are the handler.\<close>

lemma searchTrains_split:
  "searchTrains query resp st =
     (if trim query = [] then st else searchTrains_answer resp (searchTrains_call query st))"
  by (simp add: searchTrains_def searchTrains_call_def searchTrains_answer_def Let_def)




text \<open>
  A search writes in two steps, and a poll answer can land between them: the page then
  shows the search as loading over the new fleet list. Since the poll of the page writes
  \<open>allTrains\<close> and \<open>lastUpdated\<close> only, and the search writes neither, the state at the
  end is that of the poll and the search run one after the other, in either order.
\<close>

lemma poll_lands_inside_search:
  "(let p = run [SearchCall ''rajdhani'',
                 PollAnswer (FetchBody (JArr [sampleTrain 1 40])) 1000] mounted
    in loading (fleet p) = True \<and> searchesInFlight p = 1
       \<and> allTrains (fleet p) = JArr [sampleTrain 1 40])"
  by (simp add: mounted_def trim_sample searchTrains_call_def pollFleet_body orEmpty_def
      initialState_def)

lemma poll_between_search_steps:
  assumes "trim query \<noteq> []"
  shows "searchTrains_answer sresp (fst (pollFleet resp now (searchTrains_call query st)))
           = fst (pollFleet resp now (searchTrains query sresp st))"
    and "searchTrains_answer sresp (fst (pollFleet resp now (searchTrains_call query st)))
           = searchTrains query sresp (fst (pollFleet resp now st))"
  using assms
  by (cases resp; cases sresp;
      simp add: pollFleet_failed pollFleet_body searchTrains_split searchTrains_call_def
        searchTrains_answer_def Let_def split: list.splits)+

section \<open>Selection and polling\<close>

text \<open>
  Claim C1 (selection re-binding by identity). The claim wants a held selection on an id
  to take the record of each new snapshot that contains the id. The page does not do so.
  Run: the first poll brings train 7 at speed 40, the user clicks it, the next poll
  brings train 7 at speed 60. The fleet list then shows the new record, and the
  selection still holds the record of the click. The half of the claim about a snapshot
  that lacks the id does hold, see \<open>pollFleet_keeps_selection\<close>.
\<close>

theorem poll_keeps_stale_selection:
  "(let st0 = selectTrain (sampleTrain 7 40)
                (fst (pollFleet (FetchBody (JArr [sampleTrain 7 40])) 1000 initialState));
        st1 = fst (pollFleet (FetchBody (JArr [sampleTrain 7 60])) 6000 st0)
    in allTrains st1 = JArr [sampleTrain 7 60]
       \<and> selectedTrain st1 = Some (sampleTrain 7 40)
       \<and> selectedTrain st1 \<noteq> Some (sampleTrain 7 60))"
  by (simp add: pollFleet_body selectTrain_def orEmpty_def sampleTrain_def initialState_def)

text \<open>
  Claim C2 (snapshot replacement, not merge). A successful poll that carries a list of
  trains puts exactly that list into \<open>allTrains\<close>, whatever the cell held before; after
  two such polls in a row the cell holds the second list alone, so an entity of the
  first list that is missing from the second is gone.
\<close>

theorem poll_replaces_entities:
  "allTrains (fst (pollFleet (FetchBody (JArr ts)) now st)) = JArr ts
   \<and> allTrains (fst (pollFleet (FetchBody (JArr ts2)) now2
        (fst (pollFleet (FetchBody (JArr ts1)) now1 st)))) = JArr ts2"
  by (simp add: pollFleet_body orEmpty_def)

text \<open>The run of the specification: the fleet 1, 2, 3 followed by the fleet 1, 3.\<close>

lemma fleet_123_then_13:
  "entityIds (allTrains (fst (pollFleet
      (FetchBody (JArr [sampleTrain 1 50, sampleTrain 3 70])) 6000
      (fst (pollFleet
        (FetchBody (JArr [sampleTrain 1 40, sampleTrain 2 60, sampleTrain 3 80])) 1000
        initialState))))) = [1, 3]"
  by (simp add: pollFleet_body orEmpty_def sampleTrain_def)

text \<open>
  Claim C3 (search override with first-result policy). A search with a query that is
  not blank and a response with at least one result sets the selection to the first
  result, whatever was selected before, and any poll after it leaves the selection on
  that result.
\<close>

theorem search_selects_first_result:
  assumes "trim query \<noteq> []"
  shows "selectedTrain (searchTrains query (SearchResults (first # others)) st) = Some first
         \<and> selectedTrain (fst (pollFleet resp now
              (searchTrains query (SearchResults (first # others)) st))) = Some first"
  using assms by (simp add: pollFleet_keeps_selection searchTrains_results)

theorem search_selects_first_result_witness:
  "trim ''rajdhani'' \<noteq> []
   \<and> selectedTrain (searchTrains ''rajdhani''
        (SearchResults [sampleTrain 9 80, sampleTrain 4 10])
        (selectTrain (sampleTrain 5 40) initialState)) = Some (sampleTrain 9 80)
   \<and> selectedTrain (fst (pollFleet
        (FetchBody (JArr [sampleTrain 5 45, sampleTrain 9 85])) 6000
        (searchTrains ''rajdhani''
          (SearchResults [sampleTrain 9 80, sampleTrain 4 10])
          (selectTrain (sampleTrain 5 40) initialState)))) = Some (sampleTrain 9 80)"
  using search_selects_first_result [OF trim_sample, of "sampleTrain 9 80" "[sampleTrain 4 10]"
      "selectTrain (sampleTrain 5 40) initialState"
      "FetchBody (JArr [sampleTrain 5 45, sampleTrain 9 85])" 6000]
    trim_sample
  by simp

text \<open>
  Claim C5 (idempotent replay), as stated: the same snapshot applied twice gives the same
  state, \<open>lastUpdated\<close> included. It fails when the clock has moved between the two
  polls, as it has between two ticks of the timer.
\<close>

theorem replay_differs_in_lastUpdated:
  "fst (pollFleet (FetchBody (JArr [sampleTrain 1 40])) 6000
     (fst (pollFleet (FetchBody (JArr [sampleTrain 1 40])) 1000 initialState)))
   \<noteq> fst (pollFleet (FetchBody (JArr [sampleTrain 1 40])) 1000 initialState)"
proof
  assume "fst (pollFleet (FetchBody (JArr [sampleTrain 1 40])) 6000
     (fst (pollFleet (FetchBody (JArr [sampleTrain 1 40])) 1000 initialState)))
   = fst (pollFleet (FetchBody (JArr [sampleTrain 1 40])) 1000 initialState)"
  then have "lastUpdated (fst (pollFleet (FetchBody (JArr [sampleTrain 1 40])) 6000
     (fst (pollFleet (FetchBody (JArr [sampleTrain 1 40])) 1000 initialState))))
   = lastUpdated (fst (pollFleet (FetchBody (JArr [sampleTrain 1 40])) 1000 initialState))"
    by simp
  then show False by (simp add: pollFleet_body)
qed

text \<open>
  Claim C5, amended: the second application of the same successful response changes
  nothing but \<open>lastUpdated\<close>, which takes the clock reading of the second application.
\<close>

theorem replay_same_up_to_lastUpdated:
  "fst (pollFleet (FetchBody v) t2 (fst (pollFleet (FetchBody v) t1 st)))
     = (fst (pollFleet (FetchBody v) t1 st))\<lparr>lastUpdated := Some t2\<rparr>"
  by (simp add: pollFleet_body)

text \<open>
  Claim C6 (malformed fleet response). The claim wants a successful response whose
  \<^verbatim>\<open>trains\<close> field is absent or malformed to be processed as an empty fleet, with no
  error. The guard of line 53 replaces a falsy value only. Run: a train is selected and
  the response carries the string ``none'' under \<^verbatim>\<open>trains\<close>. The string is stored in
  \<open>allTrains\<close>, the list is not emptied, and the next render throws on it.
\<close>

theorem malformed_trains_stored_as_is:
  "(let st = fst (pollFleet (FetchBody (JStr ''none'')) 1000
               (selectTrain (sampleTrain 7 40) initialState))
    in allTrains st = JStr ''none'' \<and> allTrains st \<noteq> JArr []
       \<and> renderTrainList (allTrains st) = Inl TypeError)"
  by (simp add: pollFleet_body orEmpty_def)

text \<open>
  Claim C7 (fleet fetch failure atomicity). When the request rejects or the response
  status is not a success, \<^verbatim>\<open>fetchAllTrains\<close>, as any render's closure and so also as the
  poll of the page, returns the state it was given: entities, selection, \<open>lastUpdated\<close>
  and the error shown to the user are all unchanged. The rejection goes to the console
  only.
\<close>

theorem failed_fetch_leaves_state:
  "fetchAllTrains captured FetchRejected now st = (st, Some NetworkError)
   \<and> fetchAllTrains captured FetchNotOk now st = (st, None)
   \<and> fst (pollFleet FetchRejected now st) = st
   \<and> fst (pollFleet FetchNotOk now st) = st"
  by (simp add: pollFleet_def fetchAllTrains_def)

section \<open>Polls and searches on the event loop\<close>




section \<open>Search\<close>

text \<open>
  Claim C8 (search without a result leaves the state untouched, with distinct
  conditions). For a query that is not blank, a response with no result sets the error
  text for no match, a response with a status that is not a success and a rejected
  request set two other texts, and in all three cases the selection and the entities
  are those of before.
\<close>

theorem search_without_result_keeps_state:
  assumes "trim query \<noteq> []"
  shows "(let noMatch = searchTrains query (SearchResults []) st;
              failed = searchTrains query SearchNotOk st;
              rejected = searchTrains query SearchRejected st
          in error noMatch = Some ''No trains found matching your search''
           \<and> error failed = Some ''Search failed. Please try again.''
           \<and> error rejected = Some ''Search error. Please check your connection.''
           \<and> error noMatch \<noteq> error failed \<and> error noMatch \<noteq> error rejected
           \<and> selectedTrain noMatch = selectedTrain st \<and> allTrains noMatch = allTrains st
           \<and> selectedTrain failed = selectedTrain st \<and> allTrains failed = allTrains st
           \<and> selectedTrain rejected = selectedTrain st \<and> allTrains rejected = allTrains st)"
  using assms by (simp add: searchTrains_def)

theorem search_without_result_keeps_state_witness:
  "trim ''rajdhani'' \<noteq> []
   \<and> (let st = selectTrain (sampleTrain 5 40)
                 (fst (pollFleet (FetchBody (JArr [sampleTrain 5 40])) 1000 initialState));
          noMatch = searchTrains ''rajdhani'' (SearchResults []) st;
          failed = searchTrains ''rajdhani'' SearchNotOk st;
          rejected = searchTrains ''rajdhani'' SearchRejected st
      in error noMatch = Some ''No trains found matching your search''
       \<and> error failed = Some ''Search failed. Please try again.''
       \<and> error rejected = Some ''Search error. Please check your connection.''
       \<and> selectedTrain noMatch = Some (sampleTrain 5 40)
       \<and> allTrains noMatch = JArr [sampleTrain 5 40]
       \<and> selectedTrain failed = Some (sampleTrain 5 40)
       \<and> allTrains failed = JArr [sampleTrain 5 40]
       \<and> selectedTrain rejected = Some (sampleTrain 5 40)
       \<and> allTrains rejected = JArr [sampleTrain 5 40])"
  using search_without_result_keeps_state [OF trim_sample,
      of "selectTrain (sampleTrain 5 40)
            (fst (pollFleet (FetchBody (JArr [sampleTrain 5 40])) 1000 initialState))"]
    trim_sample
  by (simp add: Let_def selectTrain_def pollFleet_body orEmpty_def)

text \<open>
  Claim C10 (frame of a successful search). For a query that is not blank and a response
  with at least one result, the search writes the first result into the selection,
  clears the error and the loading flag, and changes nothing else: \<open>allTrains\<close>,
  \<open>lastUpdated\<close> and \<open>searchQuery\<close> are as before. The first result is not put into
  \<open>allTrains\<close>, so its id may be absent there.
\<close>

theorem search_success_frame:
  assumes "trim query \<noteq> []"
  shows "(let st' = searchTrains query (SearchResults (first # others)) st
          in selectedTrain st' = Some first
           \<and> loading st' = False \<and> error st' = None
           \<and> allTrains st' = allTrains st
           \<and> lastUpdated st' = lastUpdated st
           \<and> searchQuery st' = searchQuery st
           \<and> st' = st\<lparr>selectedTrain := Some first, loading := False, error := None\<rparr>)"
  using assms by (simp add: searchTrains_def)

theorem search_success_frame_witness:
  "trim ''rajdhani'' \<noteq> []
   \<and> (let st = fst (pollFleet (FetchBody (JArr [sampleTrain 5 40])) 1000 initialState);
          st' = searchTrains ''rajdhani'' (SearchResults [sampleTrain 9 80]) st
      in selectedTrain st' = Some (sampleTrain 9 80)
       \<and> allTrains st' = JArr [sampleTrain 5 40]
       \<and> lastUpdated st' = Some 1000
       \<and> trainId (sampleTrain 9 80) \<notin> set (entityIds (allTrains st')))"
  using search_success_frame [OF trim_sample, of "sampleTrain 9 80" "[]"
      "fst (pollFleet (FetchBody (JArr [sampleTrain 5 40])) 1000 initialState)"]
    trim_sample
  by (simp add: Let_def pollFleet_body orEmpty_def sampleTrain_def)

section \<open>Status colours\<close>

text \<open>
  Claim C9 (status colour classification), as stated: the class of a status string is
  given by the mapping of the specification. The status ``on-time'' of that mapping is
  neutral in the code, whose label is ``on time''; and the code lower-cases the status
  first, so ``PROCEED'' is a success.
\<close>

theorem status_words_of_spec_differ:
  "getStatusColor ''on-time'' = styleOf Neutral
   \<and> styleOf (specClassification ''on-time'') = styleOf Success
   \<and> getStatusColor ''on-time'' \<noteq> styleOf (specClassification ''on-time'')
   \<and> getStatusColor ''PROCEED'' = styleOf Success
   \<and> getStatusColor ''PROCEED'' \<noteq> styleOf (specClassification ''PROCEED'')"
  by (simp add: getStatusColor_def toLowerCase_def toLowerChar_def specClassification_def
      char_of_eq_iff)

text \<open>
  Claim C9, amended: the class of a status string is the entry of its lower-cased form
  in the table of the seven labels proceed, on time, warning, delayed, hold, stopped and
  early, and neutral when the table has no such entry.
\<close>

theorem getStatusColor_is_table:
  "getStatusColor s = styleOf (tableClassification s)"
  by (simp add: getStatusColor_def tableClassification_def statusTable_def Let_def)

end
